theory Spec2Isabelle
  imports Main
begin

section \<open>Python values and documents\<close>

text \<open>
  The service (\<^verbatim>\<open>main.py\<close>) moves MongoDB documents around as Python dicts. A text value
  is a \<^typ>\<open>string\<close> holding the UTF-8 bytes of the Python \<^verbatim>\<open>str\<close>; \<open>py_len\<close> and
  \<open>py_take\<close> below count and slice by code points, as Python does.

  A \<^verbatim>\<open>datetime\<close> is the naive one that the driver hands out (no time zone); an
  \<^verbatim>\<open>ObjectId\<close> is the number its twelve bytes spell.
\<close>

datatype datetime =
  Datetime (year: nat) (month: nat) (day: nat) (hour: nat) (minute: nat) (second: nat)
    (microsecond: nat)

datatype pyval =
    PNone
  | PBool bool
  | PInt int
  | PStr string
  | PObjectId nat
  | PDatetime datetime
  | PList "pyval list"
  | PDict "(string \<times> pyval) list"

text \<open>
  A dict keeps its keys in insertion order and holds each key once: an association list
  whose keys are distinct. \<open>setitem d k v\<close> is \<^verbatim>\<open>d[k] = v\<close>: an existing key keeps its
  place and takes the new value, a new key goes to the end.
\<close>

type_synonym doc = "(string \<times> pyval) list"

definition keys :: "('k \<times> 'v) list \<Rightarrow> 'k list" where
  "keys d = map fst d"

definition getitem :: "('k \<times> 'v) list \<Rightarrow> 'k \<Rightarrow> 'v option" where
  "getitem d k = map_of d k"

definition setitem :: "('k \<times> 'v) list \<Rightarrow> 'k \<Rightarrow> 'v \<Rightarrow> ('k \<times> 'v) list" where
  "setitem d k v =
     (if k \<in> set (keys d)
      then map (\<lambda>(k', v'). if k' = k then (k', v) else (k', v')) d
      else d @ [(k, v)])"

subsection \<open>Text forms\<close>

definition digit_char :: "nat \<Rightarrow> char" where
  "digit_char d = ''0123456789abcdef'' ! (d mod 16)"

text \<open>\<open>pad_base b w n\<close>: the last \<open>w\<close> digits of \<open>n\<close> in base \<open>b\<close>, zero-padded.\<close>

fun pad_base :: "nat \<Rightarrow> nat \<Rightarrow> nat \<Rightarrow> string" where
  "pad_base b 0 n = []"
| "pad_base b (Suc w) n = pad_base b w (n div b) @ [digit_char (n mod b)]"

text \<open>
  \<^verbatim>\<open>datetime.isoformat()\<close> of a naive datetime: \<^verbatim>\<open>YYYY-MM-DDTHH:MM:SS\<close>, followed by
  \<^verbatim>\<open>.ffffff\<close> when the microsecond is not zero.
\<close>

definition isoformat :: "datetime \<Rightarrow> string" where
  "isoformat t =
     pad_base 10 4 (year t) @ ''-'' @ pad_base 10 2 (month t) @ ''-'' @ pad_base 10 2 (day t)
     @ ''T'' @ pad_base 10 2 (hour t) @ '':'' @ pad_base 10 2 (minute t) @ '':''
     @ pad_base 10 2 (second t)
     @ (if microsecond t = 0 then [] else ''.'' @ pad_base 10 6 (microsecond t))"

text \<open>\<^verbatim>\<open>str(ObjectId)\<close>: the 24 hexadecimal digits of the twelve bytes.\<close>

definition objectid_str :: "nat \<Rightarrow> string" where
  "objectid_str n = pad_base 16 24 n"

text \<open>
  Python's \<^verbatim>\<open>str\<close> and \<^verbatim>\<open>repr\<close> on the values of the model. \<^verbatim>\<open>str\<close> of a text is the text,
  of an identifier its 24 digits, of a datetime \<^verbatim>\<open>isoformat\<close> with a space for the \<^verbatim>\<open>T\<close>;
  on every other value it is \<^verbatim>\<open>repr\<close>. \<^verbatim>\<open>repr\<close> of a text quotes it (with \<^verbatim>\<open>"\<close> when the
  text has a \<^verbatim>\<open>'\<close> and no \<^verbatim>\<open>"\<close>, with \<^verbatim>\<open>'\<close> otherwise) and escapes the quote, the backslash
  and the control characters; bytes above ASCII are kept, which is what Python does for
  printable characters. \<^verbatim>\<open>repr\<close> of a datetime lists its fields and leaves out a zero
  microsecond, and then a zero second.

  The serializer below takes \<^verbatim>\<open>str\<close> as a parameter \<open>str_of\<close>, so every statement about it
  holds for whatever \<^verbatim>\<open>str\<close> computes; the examples instantiate it with \<open>py_str\<close>.
\<close>

fun decimal :: "nat \<Rightarrow> string" where
  "decimal n = (if n < 10 then [digit_char n] else decimal (n div 10) @ [digit_char (n mod 10)])"

definition int_str :: "int \<Rightarrow> string" where
  "int_str i = (if i < 0 then ''-'' @ decimal (nat (- i)) else decimal (nat i))"

definition join :: "string \<Rightarrow> string list \<Rightarrow> string" where
  "join sep xs = (case xs of [] \<Rightarrow> [] | y # ys \<Rightarrow> foldl (\<lambda>acc x. acc @ sep @ x) y ys)"

definition escape_char :: "char \<Rightarrow> char \<Rightarrow> string" where
  "escape_char quote c =
     (if c = quote \<or> c = CHR 0x5C then [CHR 0x5C, c]
      else if c = CHR 0x09 then [CHR 0x5C, CHR ''t'']
      else if c = CHR 0x0A then [CHR 0x5C, CHR ''n'']
      else if c = CHR 0x0D then [CHR 0x5C, CHR ''r'']
      else if (of_char c :: nat) < 32 \<or> c = CHR 0x7F
        then [CHR 0x5C, CHR ''x''] @ pad_base 16 2 (of_char c)
      else [c])"

definition str_repr :: "string \<Rightarrow> string" where
  "str_repr s =
     (let quote = (if CHR 0x27 \<in> set s \<and> CHR 0x22 \<notin> set s then CHR 0x22 else CHR 0x27)
      in [quote] @ concat (map (escape_char quote) s) @ [quote])"

definition datetime_repr :: "datetime \<Rightarrow> string" where
  "datetime_repr t =
     ''datetime.datetime('' @
     join '', ''
       (map decimal
          ([year t, month t, day t, hour t, minute t]
           @ (if microsecond t \<noteq> 0 then [second t, microsecond t]
              else if second t \<noteq> 0 then [second t] else [])))
     @ '')''"

definition datetime_str :: "datetime \<Rightarrow> string" where
  "datetime_str t =
     pad_base 10 4 (year t) @ ''-'' @ pad_base 10 2 (month t) @ ''-'' @ pad_base 10 2 (day t)
     @ '' '' @ pad_base 10 2 (hour t) @ '':'' @ pad_base 10 2 (minute t) @ '':''
     @ pad_base 10 2 (second t)
     @ (if microsecond t = 0 then [] else ''.'' @ pad_base 10 6 (microsecond t))"

fun py_repr :: "pyval \<Rightarrow> string" where
  "py_repr PNone = ''None''"
| "py_repr (PBool b) = (if b then ''True'' else ''False'')"
| "py_repr (PInt i) = int_str i"
| "py_repr (PStr s) = str_repr s"
| "py_repr (PObjectId n) = ''ObjectId('' @ [CHR 0x27] @ objectid_str n @ [CHR 0x27] @ '')''"
| "py_repr (PDatetime t) = datetime_repr t"
| "py_repr (PList xs) = ''['' @ join '', '' (map py_repr xs) @ '']''"
| "py_repr (PDict kvs) =
     ''{'' @ join '', '' (map (\<lambda>(k, v). str_repr k @ '': '' @ py_repr v) kvs) @ ''}''"

definition py_str :: "pyval \<Rightarrow> string" where
  "py_str v =
     (case v of
        PStr s \<Rightarrow> s
      | PObjectId n \<Rightarrow> objectid_str n
      | PDatetime t \<Rightarrow> datetime_str t
      | _ \<Rightarrow> py_repr v)"

section \<open>The serializer\<close>

text \<open>
  \<^verbatim>\<open>
  def _serialize(doc: dict) -> dict:
      out = {}
      for k, v in doc.items():
          if k == "_id":
              out["id"] = str(v)
          elif isinstance(v, datetime):
              out[k] = v.isoformat()
          else:
              if isinstance(v, list):
                  out[k] = [str(x) if hasattr(x, "__class__")
                            and x.__class__.__name__ == "ObjectId" else x for x in v]
              else:
                  out[k] = v
      return out
  \<close>
  The loop over the items is a left fold; \<open>serialize_item\<close> is its body.
\<close>

definition is_objectid :: "pyval \<Rightarrow> bool" where
  "is_objectid x = (case x of PObjectId _ \<Rightarrow> True | _ \<Rightarrow> False)"

definition serialize_elem :: "(pyval \<Rightarrow> string) \<Rightarrow> pyval \<Rightarrow> pyval" where
  "serialize_elem str_of x = (if is_objectid x then PStr (str_of x) else x)"

definition serialize_item :: "(pyval \<Rightarrow> string) \<Rightarrow> doc \<Rightarrow> string \<times> pyval \<Rightarrow> doc" where
  "serialize_item str_of out kv =
     (case kv of (k, v) \<Rightarrow>
        if k = ''_id'' then setitem out ''id'' (PStr (str_of v))
        else (case v of
                PDatetime t \<Rightarrow> setitem out k (PStr (isoformat t))
              | PList xs \<Rightarrow> setitem out k (PList (map (serialize_elem str_of) xs))
              | _ \<Rightarrow> setitem out k v))"

definition serialize :: "(pyval \<Rightarrow> string) \<Rightarrow> doc \<Rightarrow> doc" where
  "serialize str_of d = foldl (serialize_item str_of) [] d"

text \<open>
  The values the serializer leaves alone: anything but a datetime or a list with an
  identifier among its elements. The key an item is written under: \<^verbatim>\<open>id\<close> for
  \<^verbatim>\<open>_id\<close>, the item's own key otherwise.
\<close>

definition untouched :: "pyval \<Rightarrow> bool" where
  "untouched v =
     (case v of
        PDatetime _ \<Rightarrow> False
      | PList xs \<Rightarrow> list_all (\<lambda>x. \<not> is_objectid x) xs
      | _ \<Rightarrow> True)"

definition out_key :: "string \<times> pyval \<Rightarrow> string" where
  "out_key kv = (if fst kv = ''_id'' then ''id'' else fst kv)"

definition out_value :: "(pyval \<Rightarrow> string) \<Rightarrow> string \<times> pyval \<Rightarrow> pyval" where
  "out_value str_of kv =
     (case kv of (k, v) \<Rightarrow>
        if k = ''_id'' then PStr (str_of v)
        else (case v of
                PDatetime t \<Rightarrow> PStr (isoformat t)
              | PList xs \<Rightarrow> PList (map (serialize_elem str_of) xs)
              | _ \<Rightarrow> v))"

definition plain :: "doc \<Rightarrow> bool" where
  "plain d = (''_id'' \<notin> set (keys d) \<and> list_all untouched (map snd d))"

definition wf_dict :: "doc \<Rightarrow> bool" where
  "wf_dict d = distinct (keys d)"

definition is_datetime :: "pyval \<Rightarrow> bool" where
  "is_datetime x = (case x of PDatetime _ \<Rightarrow> True | _ \<Rightarrow> False)"

definition list_with_objectid :: "pyval \<Rightarrow> bool" where
  "list_with_objectid x = (case x of PList xs \<Rightarrow> list_ex is_objectid xs | _ \<Rightarrow> False)"

section \<open>Text slices\<close>

text \<open>
  In UTF-8 a byte of the form \<^verbatim>\<open>10xxxxxx\<close> continues a code point and any other byte
  starts one. \<open>py_len\<close> is Python's \<^verbatim>\<open>len(s)\<close> and \<open>py_take n\<close> is \<^verbatim>\<open>s[:n]\<close>: the
  first \<open>n\<close> code points, each with its continuation bytes.
\<close>

definition continuation :: "char \<Rightarrow> bool" where
  "continuation c = ((of_char c :: nat) div 64 = 2)"

definition py_len :: "string \<Rightarrow> nat" where
  "py_len s = length (filter (\<lambda>c. \<not> continuation c) s)"

fun py_take :: "nat \<Rightarrow> string \<Rightarrow> string" where
  "py_take n [] = []"
| "py_take n (c # cs) =
     (if continuation c then c # py_take n cs
      else (case n of 0 \<Rightarrow> [] | Suc m \<Rightarrow> c # py_take m cs))"

text \<open>The three pictographs of the status texts, as their UTF-8 bytes.\<close>

definition check_mark :: string where
  "check_mark = [CHR 0xE2, CHR 0x9C, CHR 0x85]"

definition cross_mark :: string where
  "cross_mark = [CHR 0xE2, CHR 0x9D, CHR 0x8C]"

definition warning_sign :: string where
  "warning_sign = [CHR 0xE2, CHR 0x9A, CHR 0xA0, CHR 0xEF, CHR 0xB8, CHR 0x8F]"

section \<open>Programs with state and exceptions\<close>

text \<open>
  A handler runs statements that change a state and may raise. A program takes the state
  and gives back the state it leaves behind together with either the exception raised
  (\<open>Inl\<close>) or the value returned (\<open>Inr\<close>); what was changed before the exception stays
  changed. \<open>try_except\<close> is \<^verbatim>\<open>try: ... except Exception as e: ...\<close>.
\<close>

type_synonym ('s, 'e, 'a) prog = "'s \<Rightarrow> ('e + 'a) \<times> 's"

definition ret :: "'a \<Rightarrow> ('s, 'e, 'a) prog" where
  "ret x = (\<lambda>s. (Inr x, s))"

definition raise :: "'e \<Rightarrow> ('s, 'e, 'a) prog" where
  "raise e = (\<lambda>s. (Inl e, s))"

definition then_do :: "('s, 'e, 'a) prog \<Rightarrow> ('a \<Rightarrow> ('s, 'e, 'b) prog) \<Rightarrow> ('s, 'e, 'b) prog" where
  "then_do p f = (\<lambda>s. case p s of (Inl e, s') \<Rightarrow> (Inl e, s') | (Inr x, s') \<Rightarrow> f x s')"

definition try_except :: "('s, 'e, 'a) prog \<Rightarrow> ('e \<Rightarrow> ('s, 'e, 'a) prog) \<Rightarrow> ('s, 'e, 'a) prog" where
  "try_except p h = (\<lambda>s. case p s of (Inl e, s') \<Rightarrow> h e s' | (Inr x, s') \<Rightarrow> (Inr x, s'))"

definition modify :: "('s \<Rightarrow> 's) \<Rightarrow> ('s, 'e, unit) prog" where
  "modify f = (\<lambda>s. (Inr (), f s))"

definition call :: "'e + 'a \<Rightarrow> ('s, 'e, 'a) prog" where
  "call r = (\<lambda>s. (r, s))"

primrec for_each :: "'a list \<Rightarrow> ('a \<Rightarrow> ('s, 'e, 'b) prog) \<Rightarrow> ('s, 'e, unit) prog" where
  "for_each [] f = ret ()"
| "for_each (x # xs) f = then_do (f x) (\<lambda>_. for_each xs f)"

section \<open>The document store\<close>

text \<open>
  The global \<^verbatim>\<open>db\<close> of \<^verbatim>\<open>database.py\<close> is \<^verbatim>\<open>None\<close> or a handle on a MongoDB database
  (\<open>mongo_db option\<close>). The handle is modelled by what the handlers observe of it:
  \<^item> \<open>name_attr\<close>: what reading \<^verbatim>\<open>db.name\<close> does: \<open>Inl m\<close> raises an exception whose
    \<^verbatim>\<open>str\<close> is \<open>m\<close>, \<open>Inr None\<close> is a handle without that attribute, \<open>Inr (Some n)\<close> is the
    name; the driver's own handle always gives \<open>Inr (Some n)\<close>;
  \<^item> \<open>colls\<close>: the collections, by name, each the list of its documents;
  \<^item> \<open>next_oid\<close>: the identifier the store assigns to the next inserted document;
  \<^item> \<open>outage\<close>: \<open>Some m\<close> when the store cannot be reached; every operation on it then
    raises an exception whose \<^verbatim>\<open>str\<close> is \<open>m\<close>. An outage that begins in the middle of a
    request is not modelled.
\<close>

record mongo_db =
  name_attr :: "string + string option"
  colls :: "(string \<times> doc list) list"
  next_oid :: nat
  outage :: "string option"

definition collection :: "mongo_db \<Rightarrow> string \<Rightarrow> doc list" where
  "collection d c = (case map_of (colls d) c of Some ds \<Rightarrow> ds | None \<Rightarrow> [])"

text \<open>A filter is a dict of field-equality constraints; the empty one matches everything.\<close>

definition matches :: "doc \<Rightarrow> doc \<Rightarrow> bool" where
  "matches filt d = list_all (\<lambda>(k, v). getitem d k = Some v) filt"

text \<open>The driver's calls that \<^verbatim>\<open>main.py\<close> makes itself.\<close>

definition list_collection_names :: "mongo_db \<Rightarrow> string + string list" where
  "list_collection_names d =
     (case outage d of Some m \<Rightarrow> Inl m | None \<Rightarrow> Inr (keys (colls d)))"

definition count_documents :: "mongo_db \<Rightarrow> string \<Rightarrow> doc \<Rightarrow> string + nat" where
  "count_documents d c filt =
     (case outage d of
        Some m \<Rightarrow> Inl m
      | None \<Rightarrow> Inr (length (filter (matches filt) (collection d c))))"

text \<open>
  Modelled from the spec: \<^verbatim>\<open>create_document\<close> and \<^verbatim>\<open>get_documents\<close> of \<^verbatim>\<open>database.py\<close>,
  which \<^verbatim>\<open>main.py\<close> imports and the sources do not include. Section 4.2:
  \<^verbatim>\<open>insert(collectionName, record) -> identifier\<close> persists one record and returns a
  store-assigned unique identifier, and fails if the store is unreachable;
  \<^verbatim>\<open>query(collectionName, filter)\<close> returns the records that satisfy the field-equality
  constraints of the filter (the empty mapping: all records). Section 7: read paths on an
  uninitialized store return an empty sequence. The validated model handed to
  \<^verbatim>\<open>create_document\<close> is stored as the dict of its fields (no model has a field
  \<^verbatim>\<open>_id\<close>), with the store's identifier under \<^verbatim>\<open>_id\<close>; the identifier is returned as text.
\<close>

definition create_document :: "string \<Rightarrow> doc \<Rightarrow> (mongo_db, string, string) prog" where
  "create_document c data =
     (\<lambda>d. case outage d of
        Some m \<Rightarrow> (Inl m, d)
      | None \<Rightarrow>
          (Inr (objectid_str (next_oid d)),
           d\<lparr>colls :=
               setitem (colls d) c
                 (collection d c @ [(''_id'', PObjectId (next_oid d)) # data]),
             next_oid := Suc (next_oid d)\<rparr>))"

definition get_documents :: "mongo_db option \<Rightarrow> string \<Rightarrow> doc \<Rightarrow> string + doc list" where
  "get_documents db c filt =
     (case db of
        None \<Rightarrow> Inr []
      | Some d \<Rightarrow>
          (case outage d of
             Some m \<Rightarrow> Inl m
           | None \<Rightarrow> Inr (filter (matches filt) (collection d c))))"

section \<open>The schemas\<close>

text \<open>
  The Pydantic models of \<^verbatim>\<open>schemas.py\<close> that the seed data uses, and the dict of its fields
  that each is stored as (an optional field that is not given is \<^verbatim>\<open>None\<close>).
\<close>

record IssueCategory =
  key :: string
  title :: string
  description :: "string option"
  icon :: "string option"

record SolutionStep =
  step_title :: string
  details :: string

record SolutionGuide =
  guide_title :: string
  category_key :: string
  devices :: "string list"
  summary :: "string option"
  steps :: "SolutionStep list"
  difficulty :: "string option"

definition optional :: "string option \<Rightarrow> pyval" where
  "optional x = (case x of None \<Rightarrow> PNone | Some s \<Rightarrow> PStr s)"

definition dump_category :: "IssueCategory \<Rightarrow> doc" where
  "dump_category c =
     [(''key'', PStr (key c)), (''title'', PStr (title c)),
      (''description'', optional (description c)), (''icon'', optional (icon c))]"

definition dump_step :: "SolutionStep \<Rightarrow> pyval" where
  "dump_step s = PDict [(''title'', PStr (step_title s)), (''details'', PStr (details s))]"

definition dump_guide :: "SolutionGuide \<Rightarrow> doc" where
  "dump_guide g =
     [(''title'', PStr (guide_title g)), (''category_key'', PStr (category_key g)),
      (''devices'', PList (map PStr (devices g))), (''summary'', optional (summary g)),
      (''steps'', PList (map dump_step (steps g))), (''difficulty'', optional (difficulty g))]"

section \<open>The handlers\<close>

text \<open>
  What a handler can end with instead of a response: the \<^verbatim>\<open>HTTPException\<close> it raises
  itself (status code, detail), or an exception of the store that it does not catch.
\<close>

datatype error = HTTPException nat string | Unhandled string

subsection \<open>\<^verbatim>\<open>POST /api/seed\<close>\<close>

definition seed_categories :: "IssueCategory list" where
  "seed_categories =
     [\<lparr>key = ''icloud'', title = ''iCloud/Activation Lock'',
       description = Some ''Help with activation lock and iCloud lock issues'',
       icon = Some ''cloud''\<rparr>,
      \<lparr>key = ''frp'', title = ''FRP (Factory Reset Protection)'',
       description = Some ''Google account lock/FRP bypass help'', icon = Some ''shield''\<rparr>,
      \<lparr>key = ''screen-lock'', title = ''Screen/Pin/Pattern Lock'',
       description = Some ''Forgotten screen lock resolutions'', icon = Some ''lock''\<rparr>,
      \<lparr>key = ''bootloop'', title = ''Bootloop/No Boot'',
       description = Some ''Device stuck on boot logo or not starting'',
       icon = Some ''refresh''\<rparr>]"

definition seed_guides :: "SolutionGuide list" where
  "seed_guides =
     [\<lparr>guide_title = ''Check Activation Lock Status'',
       category_key = ''icloud'',
       devices = [''iPhone 8+'', ''iPad (2018+)''],
       summary = Some ''Verify activation lock status and prepare ownership proof'',
       steps =
         [\<lparr>step_title = ''Find IMEI/Serial'',
           details = ''From the SIM tray or box. If device is on, go to Settings > General > About.''\<rparr>,
          \<lparr>step_title = ''Check Online'',
           details = ''Use Apple's support to check coverage and activation lock status.''\<rparr>,
          \<lparr>step_title = ''Contact Original Owner'',
           details = ''Request remote removal via iCloud.com > Find My.''\<rparr>],
       difficulty = Some ''medium''\<rparr>,
      \<lparr>guide_title = ''FRP Removal Preparation'',
       category_key = ''frp'',
       devices = [''Samsung Galaxy S9+'', ''Pixel 3+''],
       summary = Some ''Collect details and follow safe FRP bypass preparation steps'',
       steps =
         [\<lparr>step_title = ''Know the Patch Level'',
           details = ''Find the Android security patch level to choose a compatible method.''\<rparr>,
          \<lparr>step_title = ''Network Ready'',
           details = ''Ensure stable Wi'' @ [CHR 0xE2, CHR 0x80, CHR 0x91]
                     @ ''Fi; some steps require SIM with PIN.''\<rparr>,
          \<lparr>step_title = ''OTG/PC Tools'',
           details = ''Have a USB cable and a computer ready for ADB-based methods.''\<rparr>],
       difficulty = Some ''hard''\<rparr>,
      \<lparr>guide_title = ''Forgot Screen PIN on Android'',
       category_key = ''screen-lock'',
       devices = [''Android 8+''],
       summary = Some ''Try non-destructive options before reset'',
       steps =
         [\<lparr>step_title = ''Find My Device Unlock'',
           details = ''If enabled, use google.com/android/find to attempt unlock or reset.''\<rparr>,
          \<lparr>step_title = ''OEM Account Unlock'',
           details = ''Some vendors allow remote unlock after verification.''\<rparr>,
          \<lparr>step_title = ''Backup then Reset'',
           details = ''If nothing works, use recovery mode to factory reset (will erase data).''\<rparr>],
       difficulty = Some ''easy''\<rparr>]"

text \<open>
  \<^verbatim>\<open>
  def seed_sample_data():
      if db is None:
          raise HTTPException(status_code=500, detail="Database not available")
      if db["issuecategory"].count_documents({}) == 0:
          categories = [...]
          for cat in categories:
              create_document("issuecategory", cat)
      if db["solutionguide"].count_documents({}) == 0:
          guides = [...]
          for g in guides:
              create_document("solutionguide", g)
      return {"message": "Seed complete"}
  \<close>
  \<open>seed_store\<close> is the body after the check of the handle, a program on the store.
\<close>

definition seed_store :: "(mongo_db, string, doc) prog" where
  "seed_store =
     then_do (\<lambda>d. (count_documents d ''issuecategory'' [], d)) (\<lambda>n.
     then_do (if n = 0
              then for_each seed_categories
                     (\<lambda>cat. create_document ''issuecategory'' (dump_category cat))
              else ret ()) (\<lambda>_.
     then_do (\<lambda>d. (count_documents d ''solutionguide'' [], d)) (\<lambda>m.
     then_do (if m = 0
              then for_each seed_guides (\<lambda>g. create_document ''solutionguide'' (dump_guide g))
              else ret ()) (\<lambda>_.
     ret [(''message'', PStr ''Seed complete'')]))))"

definition seed_sample_data :: "mongo_db option \<Rightarrow> (error + doc) \<times> mongo_db option" where
  "seed_sample_data db =
     (case db of
        None \<Rightarrow> (Inl (HTTPException 500 ''Database not available''), None)
      | Some d \<Rightarrow>
          (case seed_store d of
             (Inl m, d') \<Rightarrow> (Inl (Unhandled m), Some d')
           | (Inr r, d') \<Rightarrow> (Inr r, Some d')))"

subsection \<open>\<^verbatim>\<open>GET /api/guides\<close>\<close>

text \<open>
  \<^verbatim>\<open>
  def list_guides(category_key: Optional[str] = None) -> List[dict]:
      filt = {"category_key": category_key} if category_key else {}
      docs = get_documents("solutionguide", filt)
      return [_serialize(d) for d in docs]
  \<close>
  A string is false when it is empty, so the empty key builds the empty filter. The query
  parameter \<^verbatim>\<open>category_key\<close> is \<open>q\<close> below.
\<close>

definition guides_filter :: "string option \<Rightarrow> doc" where
  "guides_filter q =
     (case q of
        None \<Rightarrow> []
      | Some k \<Rightarrow> if k \<noteq> [] then [(''category_key'', PStr k)] else [])"

definition list_guides ::
  "(pyval \<Rightarrow> string) \<Rightarrow> mongo_db option \<Rightarrow> string option \<Rightarrow> error + doc list" where
  "list_guides str_of db q =
     (case get_documents db ''solutionguide'' (guides_filter q) of
        Inl m \<Rightarrow> Inl (Unhandled m)
      | Inr docs \<Rightarrow> Inr (map (serialize str_of) docs))"

subsection \<open>\<^verbatim>\<open>GET /test\<close>\<close>

text \<open>
  The response is a dict with six fixed keys. The handler assigns to them one after the
  other inside two nested \<^verbatim>\<open>try\<close> blocks, so it is a program on the response; \<open>getenv\<close>
  is \<^verbatim>\<open>os.getenv\<close>.
  \<^verbatim>\<open>
      try:
          if db is not None:
              response["database"] = "(check) Available"
              response["database_url"] = "(check) Configured"
              response["database_name"] = db.name if hasattr(db, 'name') else "(check) Connected"
              response["connection_status"] = "Connected"
              try:
                  collections = db.list_collection_names()
                  response["collections"] = collections[:10]
                  response["database"] = "(check) Connected & Working"
              except Exception as e:
                  response["database"] = f"(warning)  Connected but Error: {str(e)[:50]}"
          else:
              response["database"] = "(warning)  Available but not initialized"
      except Exception as e:
          response["database"] = f"(cross) Error: {str(e)[:50]}"
      response["database_url"] = "(check) Set" if os.getenv("DATABASE_URL") else "(cross) Not Set"
      response["database_name"] = "(check) Set" if os.getenv("DATABASE_NAME") else "(cross) Not Set"
      return response
  \<close>
\<close>

record response =
  backend :: string
  database :: string
  database_url :: "string option"
  database_name :: "string option"
  connection_status :: string
  collections :: "string list"

definition initial_response :: response where
  "initial_response =
     \<lparr>backend = check_mark @ '' Running'',
      database = cross_mark @ '' Not Available'',
      database_url = None,
      database_name = None,
      connection_status = ''Not Connected'',
      collections = []\<rparr>"

definition truthy :: "string option \<Rightarrow> bool" where
  "truthy x = (case x of None \<Rightarrow> False | Some s \<Rightarrow> s \<noteq> [])"

definition check_collections :: "mongo_db \<Rightarrow> (response, string, unit) prog" where
  "check_collections d =
     try_except
       (then_do (call (list_collection_names d)) (\<lambda>names.
        then_do (modify (\<lambda>r. r\<lparr>collections := take 10 names\<rparr>)) (\<lambda>_.
        modify (\<lambda>r. r\<lparr>database := check_mark @ '' Connected & Working''\<rparr>))))
       (\<lambda>e. modify (\<lambda>r. r\<lparr>database :=
                 warning_sign @ ''  Connected but Error: '' @ py_take 50 e\<rparr>))"

definition check_database :: "mongo_db option \<Rightarrow> (response, string, unit) prog" where
  "check_database db =
     try_except
       (case db of
          Some d \<Rightarrow>
            then_do (modify (\<lambda>r. r\<lparr>database := check_mark @ '' Available''\<rparr>)) (\<lambda>_.
            then_do (modify (\<lambda>r. r\<lparr>database_url := Some (check_mark @ '' Configured'')\<rparr>)) (\<lambda>_.
            then_do (call (name_attr d)) (\<lambda>n.
            then_do (modify (\<lambda>r. r\<lparr>database_name :=
                       Some (case n of Some nm \<Rightarrow> nm | None \<Rightarrow> check_mark @ '' Connected'')\<rparr>)) (\<lambda>_.
            then_do (modify (\<lambda>r. r\<lparr>connection_status := ''Connected''\<rparr>)) (\<lambda>_.
            check_collections d)))))
        | None \<Rightarrow>
            modify (\<lambda>r. r\<lparr>database := warning_sign @ ''  Available but not initialized''\<rparr>))
       (\<lambda>e. modify (\<lambda>r. r\<lparr>database := cross_mark @ '' Error: '' @ py_take 50 e\<rparr>))"

definition set_or_not :: "string option \<Rightarrow> string" where
  "set_or_not x = (if truthy x then check_mark @ '' Set'' else cross_mark @ '' Not Set'')"

definition test_database ::
  "mongo_db option \<Rightarrow> (string \<Rightarrow> string option) \<Rightarrow> string + response" where
  "test_database db getenv =
     (case
        then_do (check_database db) (\<lambda>_.
        then_do (modify (\<lambda>r. r\<lparr>database_url := Some (set_or_not (getenv ''DATABASE_URL''))\<rparr>)) (\<lambda>_.
        then_do (modify (\<lambda>r. r\<lparr>database_name := Some (set_or_not (getenv ''DATABASE_NAME''))\<rparr>))
          (\<lambda>_. (\<lambda>r. (Inr r, r))))) initial_response
      of (Inl e, _) \<Rightarrow> Inl e | (Inr r, _) \<Rightarrow> Inr r)"

section \<open>Stored documents and example stores\<close>

text \<open>
  \<open>with_ids n xs\<close>: the records \<open>xs\<close> as the store holds them after inserting them one
  after the other, the first under the identifier \<open>n\<close>.
\<close>

primrec with_ids :: "nat \<Rightarrow> doc list \<Rightarrow> doc list" where
  "with_ids n [] = []"
| "with_ids n (x # xs) = ((''_id'', PObjectId n) # x) # with_ids (Suc n) xs"

definition empty_store :: mongo_db where
  "empty_store = \<lparr>name_attr = Inr (Some ''repair''), colls = [], next_oid = 0, outage = None\<rparr>"

definition categories_only :: mongo_db where
  "categories_only =
     \<lparr>name_attr = Inr (Some ''repair''),
      colls = [(''issuecategory'', [[(''_id'', PObjectId 0), (''key'', PStr ''water-damage'')]])],
      next_oid = 1, outage = None\<rparr>"

definition one_guide :: mongo_db where
  "one_guide =
     \<lparr>name_attr = Inr (Some ''repair''),
      colls = [(''solutionguide'',
                [[(''_id'', PObjectId 0), (''title'', PStr ''Check Activation Lock Status''),
                  (''category_key'', PStr ''icloud'')]])],
      next_oid = 1, outage = None\<rparr>"

definition two_guides :: mongo_db where
  "two_guides =
     \<lparr>name_attr = Inr (Some ''repair''),
      colls = [(''solutionguide'',
                [[(''_id'', PObjectId 0), (''title'', PStr ''Check Activation Lock Status''),
                  (''category_key'', PStr ''icloud'')],
                 [(''_id'', PObjectId 1), (''title'', PStr ''FRP Removal Preparation''),
                  (''category_key'', PStr ''frp'')]])],
      next_oid = 2, outage = None\<rparr>"

definition many_collections :: mongo_db where
  "many_collections =
     \<lparr>name_attr = Inr (Some ''repair''),
      colls = [(''c01'', []), (''c02'', []), (''c03'', []), (''c04'', []), (''c05'', []),
               (''c06'', []), (''c07'', []), (''c08'', []), (''c09'', []), (''c10'', []),
               (''c11'', []), (''c12'', [])],
      next_oid = 0, outage = None\<rparr>"

definition long_cause :: string where
  "long_cause = ''localhost:27017: [Errno 111] Connection refused (configured timeouts: 30s)''"

definition store_down :: mongo_db where
  "store_down =
     \<lparr>name_attr = Inr (Some ''repair''), colls = [], next_oid = 0, outage = Some long_cause\<rparr>"

definition no_env :: "string \<Rightarrow> string option" where
  "no_env k = None"

section \<open>Properties of the serializer\<close>

lemma keys_update:
  "keys (map (\<lambda>(k', v'). if k' = k then (k', v) else (k', v')) d) = keys d"
  by (induction d) (auto simp: keys_def)

lemma keys_setitem: "set (keys (setitem d k v)) = insert k (set (keys d))"
proof (cases "k \<in> set (keys d)")
  case True
  then show ?thesis by (auto simp: setitem_def keys_update)
next
  case False
  then show ?thesis by (auto simp: setitem_def keys_def)
qed

lemma setitem_fresh: "k \<notin> set (keys d) \<Longrightarrow> setitem d k v = d @ [(k, v)]"
  by (simp add: setitem_def)

lemma wf_setitem: "wf_dict d \<Longrightarrow> wf_dict (setitem d k v)"
proof (cases "k \<in> set (keys d)")
  case True
  assume "wf_dict d"
  with True show ?thesis by (simp add: wf_dict_def setitem_def keys_update)
next
  case False
  assume "wf_dict d"
  with False show ?thesis by (simp add: wf_dict_def setitem_fresh keys_def)
qed

lemma map_of_update:
  "map_of (map (\<lambda>(k', v'). if k' = k then (k', v) else (k', v')) d) k' =
   (if k' = k \<and> k \<in> fst ` set d then Some v else map_of d k')"
proof (induction d)
  case Nil
  then show ?case by simp
next
  case (Cons a d)
  obtain x y where a: "a = (x, y)" by (cases a)
  show ?case using Cons.IH unfolding a by (cases "x = k"; cases "k' = k"; simp)
qed

lemma map_of_snoc:
  "k \<notin> fst ` set d \<Longrightarrow>
   map_of (d @ [(k, v)]) k' = (if k' = k then Some v else map_of d k')"
proof (induction d)
  case Nil
  then show ?case by simp
next
  case (Cons a d)
  obtain x y where a: "a = (x, y)" by (cases a)
  show ?case using Cons unfolding a by (cases "x = k'"; auto)
qed

lemma values_update:
  "set (map snd (map (\<lambda>(k', v'). if k' = k then (k', v) else (k', v')) d))
   \<subseteq> insert v (set (map snd d))"
  by (induction d) auto

lemma getitem_setitem:
  "getitem (setitem d k v) k' = (if k' = k then Some v else getitem d k')"
proof (cases "k \<in> set (keys d)")
  case False
  then show ?thesis by (simp add: setitem_fresh getitem_def map_of_snoc keys_def del: map_of_append)
next
  case True
  then show ?thesis by (simp add: setitem_def getitem_def map_of_update keys_def)
qed

lemma values_setitem:
  "set (map snd (setitem d k v)) \<subseteq> insert v (set (map snd d))"
proof (cases "k \<in> set (keys d)")
  case True
  then show ?thesis using values_update [of k v d] by (simp add: setitem_def)
next
  case False
  then show ?thesis by (auto simp: setitem_def)
qed

lemma serialize_item_eq:
  "serialize_item str_of out kv = setitem out (out_key kv) (out_value str_of kv)"
  by (cases kv) (auto simp: serialize_item_def out_key_def out_value_def split: pyval.splits)

lemma out_key_not_underscore_id: "out_key kv \<noteq> ''_id''"
  by (simp add: out_key_def)

lemma serialize_elem_not_objectid: "\<not> is_objectid (serialize_elem str_of x)"
  by (simp add: serialize_elem_def is_objectid_def)

lemma untouched_out_value: "untouched (out_value str_of kv)"
  by (cases kv)
    (auto simp: out_value_def untouched_def list_all_iff serialize_elem_not_objectid
      split: pyval.splits)

lemma serialize_elem_id: "\<not> is_objectid x \<Longrightarrow> serialize_elem str_of x = x"
  by (simp add: serialize_elem_def)

lemma out_value_untouched:
  "fst kv \<noteq> ''_id'' \<Longrightarrow> untouched (snd kv) \<Longrightarrow> out_value str_of kv = snd kv"
  by (cases kv)
    (auto simp: out_value_def untouched_def list_all_iff serialize_elem_id map_idI
      split: pyval.splits)

lemma plain_setitem:
  assumes "plain d" and "k \<noteq> ''_id''" and "untouched v"
  shows "plain (setitem d k v)"
proof -
  have "''_id'' \<notin> set (keys (setitem d k v))"
    using assms(1,2) by (simp add: keys_setitem plain_def)
  moreover have "\<forall>x \<in> set (map snd (setitem d k v)). untouched x"
  proof
    fix x assume "x \<in> set (map snd (setitem d k v))"
    then have "x = v \<or> x \<in> set (map snd d)"
      using values_setitem [of d k v] by blast
    then show "untouched x"
      using assms(1,3) by (auto simp: plain_def list_all_iff)
  qed
  ultimately show ?thesis by (simp add: plain_def list_all_iff)
qed

lemma foldl_serialize_invariant:
  "wf_dict out \<Longrightarrow> plain out \<Longrightarrow>
   wf_dict (foldl (serialize_item str_of) out d) \<and> plain (foldl (serialize_item str_of) out d)"
proof (induction d arbitrary: out)
  case Nil
  then show ?case by simp
next
  case (Cons kv d)
  have "wf_dict (serialize_item str_of out kv)"
    using Cons.prems(1) by (simp add: serialize_item_eq wf_setitem)
  moreover have "plain (serialize_item str_of out kv)"
    using Cons.prems(2)
    by (simp add: serialize_item_eq plain_setitem out_key_not_underscore_id untouched_out_value)
  ultimately show ?case using Cons.IH by simp
qed

lemma serialize_invariant: "wf_dict (serialize str_of d) \<and> plain (serialize str_of d)"
  unfolding serialize_def
  by (rule foldl_serialize_invariant) (simp_all add: wf_dict_def plain_def keys_def)

lemma foldl_serialize_plain:
  "wf_dict (out @ d) \<Longrightarrow> plain d \<Longrightarrow> foldl (serialize_item str_of) out d = out @ d"
proof (induction d arbitrary: out)
  case Nil
  then show ?case by simp
next
  case (Cons kv d)
  have k: "fst kv \<noteq> ''_id''" and u: "untouched (snd kv)" and p: "plain d"
    using Cons.prems(2) by (auto simp: plain_def keys_def)
  have fresh: "fst kv \<notin> set (keys out)"
    using Cons.prems(1) by (auto simp: wf_dict_def keys_def)
  have "serialize_item str_of out kv = out @ [kv]"
    using k u fresh
    by (simp add: serialize_item_eq out_value_untouched out_key_def setitem_fresh)
  moreover have "wf_dict ((out @ [kv]) @ d)"
    using Cons.prems(1) by simp
  ultimately show ?case
    using Cons.IH [of "out @ [kv]"] p by simp
qed

lemma serialize_plain: "wf_dict d \<Longrightarrow> plain d \<Longrightarrow> serialize str_of d = d"
  unfolding serialize_def using foldl_serialize_plain [of "[]" d str_of] by simp

lemma getitem_foldl_serialize:
  "k \<notin> out_key ` set d \<Longrightarrow>
   getitem (foldl (serialize_item str_of) out d) k = getitem out k"
  by (induction d arbitrary: out) (auto simp: serialize_item_eq getitem_setitem)

lemma keys_foldl_serialize:
  "set (keys (foldl (serialize_item str_of) out d)) = set (keys out) \<union> out_key ` set d"
  by (induction d arbitrary: out) (auto simp: serialize_item_eq keys_setitem)

lemma keys_Nil: "keys [] = []"
  by (simp add: keys_def)

lemma no_underscore_id_key: "''_id'' \<notin> set (keys (serialize str_of d))"
proof -
  have "set (keys (serialize str_of d)) = out_key ` set d"
    by (simp add: serialize_def keys_foldl_serialize keys_Nil)
  then show ?thesis by (auto simp: out_key_def)
qed

lemma plainI:
  assumes "''_id'' \<notin> set (keys d)"
    and "\<And>k v. (k, v) \<in> set d \<Longrightarrow> untouched v"
  shows "plain d"
  using assms by (auto simp: plain_def list_all_iff)

text \<open>
  C3. Serializing twice gives what serializing once gives, for every record and whatever
  \<^verbatim>\<open>str\<close> computes: the output of the serializer has no \<^verbatim>\<open>_id\<close> key, no datetime value and
  no identifier inside a list, so the second pass rewrites nothing (a text value is never
  read as an identifier or a timestamp).
\<close>

theorem serialize_idempotent:
  "serialize str_of (serialize str_of d) = serialize str_of d"
proof -
  have "wf_dict (serialize str_of d)" and "plain (serialize str_of d)"
    using serialize_invariant [of str_of d] by simp_all
  then show ?thesis by (rule serialize_plain)
qed

lemma untouched_iff: "untouched v \<longleftrightarrow> \<not> is_datetime v \<and> \<not> list_with_objectid v"
  by (cases v) (auto simp: untouched_def is_datetime_def list_with_objectid_def list_all_iff
      list_ex_iff)

text \<open>
  C4, as amended. The serializer decides by the name \<^verbatim>\<open>_id\<close>, not by the class of the
  value, and it rewrites identifiers inside lists. A record (a dict: distinct keys) with no
  field named \<^verbatim>\<open>_id\<close>, no field holding an identifier, whether as its value or as an element
  of its list value, and no field holding a datetime is returned as it is, field for field
  and in the same order.
\<close>

theorem serialize_identity:
  assumes "wf_dict d"
    and "''_id'' \<notin> set (keys d)"
    and "\<forall>(k, v) \<in> set d. \<not> is_objectid v \<and> \<not> list_with_objectid v \<and> \<not> is_datetime v"
  shows "serialize str_of d = d"
proof -
  have "plain d"
    using assms(2,3) by (intro plainI) (auto simp: untouched_iff)
  with assms(1) show ?thesis by (rule serialize_plain)
qed

theorem serialize_identity_witness:
  "wf_dict [(''key'', PStr ''icloud''), (''devices'', PList [PStr ''iPhone 8+'']),
            (''urgent'', PBool False)] \<and>
   serialize py_str
     [(''key'', PStr ''icloud''), (''devices'', PList [PStr ''iPhone 8+'']),
      (''urgent'', PBool False)] =
     [(''key'', PStr ''icloud''), (''devices'', PList [PStr ''iPhone 8+'']),
      (''urgent'', PBool False)]"
  using serialize_identity
    [of "[(''key'', PStr ''icloud''), (''devices'', PList [PStr ''iPhone 8+'']),
          (''urgent'', PBool False)]" py_str]
  by (simp add: wf_dict_def keys_def is_datetime_def list_with_objectid_def is_objectid_def)

text \<open>
  C4 as the specification states it fails: the record \<^verbatim>\<open>{"_id": "abc"}\<close> holds neither an
  identifier nor a datetime, and its field is renamed; the record \<^verbatim>\<open>{"refs": [ObjectId]}\<close>
  has no field whose value is an identifier or a datetime, and its list is rewritten.
\<close>

theorem serialize_identity_counterexample:
  "\<not> is_objectid (PStr ''abc'') \<and> \<not> is_datetime (PStr ''abc'') \<and>
   serialize py_str [(''_id'', PStr ''abc'')] = [(''id'', PStr ''abc'')] \<and>
   serialize py_str [(''_id'', PStr ''abc'')] \<noteq> [(''_id'', PStr ''abc'')] \<and>
   \<not> is_objectid (PList [PObjectId 1]) \<and> \<not> is_datetime (PList [PObjectId 1]) \<and>
   serialize py_str [(''refs'', PList [PObjectId 1])] \<noteq> [(''refs'', PList [PObjectId 1])]"
  by (simp add: serialize_def serialize_item_def setitem_def keys_def py_str_def
      is_objectid_def is_datetime_def serialize_elem_def)

text \<open>
  C5, as amended. The field named \<^verbatim>\<open>_id\<close>, whatever its value, is written under \<^verbatim>\<open>id\<close> as the
  text \<^verbatim>\<open>str\<close> gives for it, and the output has no field \<^verbatim>\<open>_id\<close>; this is the value of \<^verbatim>\<open>id\<close>
  in the output when no field named \<^verbatim>\<open>id\<close> follows \<^verbatim>\<open>_id\<close> in the record (a later \<^verbatim>\<open>id\<close>
  overwrites it).
\<close>

theorem serialize_renames_id:
  assumes "wf_dict d"
    and "d = pre @ (''_id'', v) # post"
    and "''id'' \<notin> set (keys post)"
  shows "getitem (serialize str_of d) ''id'' = Some (PStr (str_of v)) \<and>
         ''_id'' \<notin> set (keys (serialize str_of d))"
proof -
  have "distinct (map fst pre @ ''_id'' # map fst post)"
    using assms(1) unfolding assms(2) wf_dict_def keys_def by simp
  then have no_id: "''_id'' \<notin> fst ` set post"
    by simp
  have "''id'' \<notin> out_key ` set post"
  proof
    assume "''id'' \<in> out_key ` set post"
    then obtain kv where kv: "kv \<in> set post" and eq: "out_key kv = ''id''"
      by auto
    have "fst kv \<noteq> ''_id''"
      using kv no_id by (metis imageI)
    with eq have "fst kv = ''id''"
      by (simp add: out_key_def)
    with kv have "''id'' \<in> set (keys post)"
      unfolding keys_def by (metis image_eqI list.set_map)
    with assms(3) show False by simp
  qed
  then have "getitem (serialize str_of d) ''id'' =
        getitem (serialize_item str_of (foldl (serialize_item str_of) [] pre) (''_id'', v)) ''id''"
    unfolding serialize_def assms(2) by (simp add: getitem_foldl_serialize)
  also have "\<dots> = Some (PStr (str_of v))"
    by (simp add: serialize_item_def getitem_setitem)
  finally show ?thesis by (simp add: no_underscore_id_key)
qed

theorem serialize_renames_id_witness:
  "wf_dict [(''id'', PInt 3), (''_id'', PObjectId 10), (''key'', PStr ''frp'')] \<and>
   ''id'' \<notin> set (keys [(''key'', PStr ''frp'')]) \<and>
   getitem (serialize py_str [(''id'', PInt 3), (''_id'', PObjectId 10), (''key'', PStr ''frp'')])
     ''id'' = Some (PStr (py_str (PObjectId 10))) \<and>
   ''_id'' \<notin> set (keys (serialize py_str
     [(''id'', PInt 3), (''_id'', PObjectId 10), (''key'', PStr ''frp'')]))"
proof -
  have wf: "wf_dict [(''id'', PInt 3), (''_id'', PObjectId 10), (''key'', PStr ''frp'')]"
    by (simp add: wf_dict_def keys_def)
  have split: "[(''id'', PInt 3), (''_id'', PObjectId 10), (''key'', PStr ''frp'')] =
      [(''id'', PInt 3)] @ (''_id'', PObjectId 10) # [(''key'', PStr ''frp'')]"
    by simp
  have later: "''id'' \<notin> set (keys [(''key'', PStr ''frp'')])"
    by (simp add: keys_def)
  show ?thesis
    using wf later serialize_renames_id [OF wf split later, of py_str] by blast
qed

text \<open>
  C5 as the specification states it fails: in \<^verbatim>\<open>{"owner": ObjectId}\<close> the field holds an
  identifier, and the serializer neither renames it nor turns it into text; the output has
  no field \<^verbatim>\<open>id\<close>.
\<close>

theorem serialize_renames_id_counterexample:
  "serialize py_str [(''owner'', PObjectId 1)] = [(''owner'', PObjectId 1)] \<and>
   getitem (serialize py_str [(''owner'', PObjectId 1)]) ''id'' = None"
  by (simp add: serialize_def serialize_item_def setitem_def keys_def getitem_def)

section \<open>Properties of the seed operation\<close>

lemma matches_empty: "matches [] x"
  by (simp add: matches_def)

lemma count_all:
  "outage d = None \<Longrightarrow> count_documents d c [] = Inr (length (collection d c))"
  by (simp add: count_documents_def matches_empty)

lemma collection_update:
  "collection (d\<lparr>colls := setitem (colls d) c xs, next_oid := n\<rparr>) c' =
   (if c' = c then xs else collection d c')"
  using getitem_setitem [of "colls d" c xs c']
  by (simp add: collection_def getitem_def)

lemma create_document_ok:
  assumes "outage d = None"
  shows "\<exists>d'. create_document c x d = (Inr (objectid_str (next_oid d)), d') \<and>
              outage d' = None \<and> next_oid d' = Suc (next_oid d) \<and>
              collection d' c = collection d c @ [(''_id'', PObjectId (next_oid d)) # x] \<and>
              (\<forall>c'. c' \<noteq> c \<longrightarrow> collection d' c' = collection d c')"
  using assms by (simp add: create_document_def collection_update)

lemma for_each_create:
  assumes "outage d = None"
  shows "\<exists>d'. for_each xs (\<lambda>x. create_document c (f x)) d = (Inr (), d') \<and>
              outage d' = None \<and>
              collection d' c = collection d c @ with_ids (next_oid d) (map f xs) \<and>
              (\<forall>c'. c' \<noteq> c \<longrightarrow> collection d' c' = collection d c')"
  using assms
proof (induction xs arbitrary: d)
  case Nil
  then show ?case by (simp add: ret_def)
next
  case (Cons x xs)
  obtain d1 where d1: "create_document c (f x) d = (Inr (objectid_str (next_oid d)), d1)"
      "outage d1 = None" "next_oid d1 = Suc (next_oid d)"
      "collection d1 c = collection d c @ [(''_id'', PObjectId (next_oid d)) # f x]"
      "\<forall>c'. c' \<noteq> c \<longrightarrow> collection d1 c' = collection d c'"
    using create_document_ok [OF Cons.prems, of c "f x"] by blast
  obtain d2 where d2: "for_each xs (\<lambda>x. create_document c (f x)) d1 = (Inr (), d2)"
      "outage d2 = None"
      "collection d2 c = collection d1 c @ with_ids (next_oid d1) (map f xs)"
      "\<forall>c'. c' \<noteq> c \<longrightarrow> collection d2 c' = collection d1 c'"
    using Cons.IH [OF d1(2)] by blast
  have "for_each (x # xs) (\<lambda>x. create_document c (f x)) d = (Inr (), d2)"
    by (simp add: then_do_def d1(1) d2(1))
  moreover have "collection d2 c = collection d c @ with_ids (next_oid d) (map f (x # xs))"
    by (simp add: d2(3) d1(3,4))
  moreover have "\<forall>c'. c' \<noteq> c \<longrightarrow> collection d2 c' = collection d c'"
    using d1(5) d2(4) by simp
  ultimately show ?case using d2(2) by blast
qed

lemma seed_step:
  assumes "outage d = None"
  shows "\<exists>d'. (if length (collection d c) = 0
               then for_each xs (\<lambda>x. create_document c (f x)) else ret ()) d = (Inr (), d') \<and>
              outage d' = None \<and>
              collection d' c =
                (if collection d c = [] then with_ids (next_oid d) (map f xs) else collection d c) \<and>
              (\<forall>c'. c' \<noteq> c \<longrightarrow> collection d' c' = collection d c')"
proof (cases "collection d c = []")
  case True
  then show ?thesis using for_each_create [OF assms, of xs c f] by auto
next
  case False
  then show ?thesis using assms by (simp add: ret_def)
qed

lemma seed_store_ok:
  assumes "outage d = None"
  shows "\<exists>d' n m. seed_store d = (Inr [(''message'', PStr ''Seed complete'')], d') \<and>
     collection d' ''issuecategory'' =
       (if collection d ''issuecategory'' = []
        then with_ids n (map dump_category seed_categories)
        else collection d ''issuecategory'') \<and>
     collection d' ''solutionguide'' =
       (if collection d ''solutionguide'' = []
        then with_ids m (map dump_guide seed_guides)
        else collection d ''solutionguide'')"
proof -
  obtain d1 where d1:
      "(if length (collection d ''issuecategory'') = 0
        then for_each seed_categories (\<lambda>x. create_document ''issuecategory'' (dump_category x))
        else ret ()) d = (Inr (), d1)"
      "outage d1 = None"
      "collection d1 ''issuecategory'' =
         (if collection d ''issuecategory'' = []
          then with_ids (next_oid d) (map dump_category seed_categories)
          else collection d ''issuecategory'')"
      "\<forall>c'. c' \<noteq> ''issuecategory'' \<longrightarrow> collection d1 c' = collection d c'"
    using seed_step [OF assms, of "''issuecategory''" seed_categories dump_category] by blast
  obtain d2 where d2:
      "(if length (collection d1 ''solutionguide'') = 0
        then for_each seed_guides (\<lambda>x. create_document ''solutionguide'' (dump_guide x))
        else ret ()) d1 = (Inr (), d2)"
      "outage d2 = None"
      "collection d2 ''solutionguide'' =
         (if collection d1 ''solutionguide'' = []
          then with_ids (next_oid d1) (map dump_guide seed_guides)
          else collection d1 ''solutionguide'')"
      "\<forall>c'. c' \<noteq> ''solutionguide'' \<longrightarrow> collection d2 c' = collection d1 c'"
    using seed_step [OF d1(2), of "''solutionguide''" seed_guides dump_guide] by blast
  have g: "collection d1 ''solutionguide'' = collection d ''solutionguide''"
    using d1(4) by simp
  have c: "collection d2 ''issuecategory'' = collection d1 ''issuecategory''"
    using d2(4) by simp
  have e1: "\<And>f. then_do (\<lambda>d. (count_documents d ''issuecategory'' [], d)) f d =
      f (length (collection d ''issuecategory'')) d"
    by (simp add: then_do_def count_all assms)
  have e2: "\<And>f. then_do
      (if length (collection d ''issuecategory'') = 0
       then for_each seed_categories (\<lambda>x. create_document ''issuecategory'' (dump_category x))
       else ret ()) f d = f () d1"
    unfolding then_do_def d1(1) by simp
  have e3: "\<And>f. then_do (\<lambda>d. (count_documents d ''solutionguide'' [], d)) f d1 =
      f (length (collection d1 ''solutionguide'')) d1"
    by (simp add: then_do_def count_all d1(2))
  have e4: "\<And>f. then_do
      (if length (collection d1 ''solutionguide'') = 0
       then for_each seed_guides (\<lambda>x. create_document ''solutionguide'' (dump_guide x))
       else ret ()) f d1 = f () d2"
    unfolding then_do_def d2(1) by simp
  have "seed_store d = (Inr [(''message'', PStr ''Seed complete'')], d2)"
    by (simp only: seed_store_def e1 e2 e3 e4) (simp add: ret_def)
  then show ?thesis
    using d1(3) d2(3) g c
    by (intro exI [of _ d2] exI [of _ "next_oid d"] exI [of _ "next_oid d1"]) simp
qed

lemma length_with_ids: "length (with_ids n xs) = length xs"
  by (induction xs arbitrary: n) auto

lemma getitem_with_ids:
  "k \<noteq> ''_id'' \<Longrightarrow> map (\<lambda>x. getitem x k) (with_ids n xs) = map (\<lambda>x. getitem x k) xs"
  by (induction xs arbitrary: n) (auto simp: getitem_def)

lemma seed_category_keys:
  "map (\<lambda>x. getitem x ''key'') (map dump_category seed_categories) =
   [Some (PStr ''icloud''), Some (PStr ''frp''), Some (PStr ''screen-lock''),
    Some (PStr ''bootloop'')]"
  by (simp add: seed_categories_def dump_category_def getitem_def)

lemma seed_guide_keys:
  "map (\<lambda>x. getitem x ''category_key'') (map dump_guide seed_guides) =
   [Some (PStr ''icloud''), Some (PStr ''frp''), Some (PStr ''screen-lock'')]"
  by (simp add: seed_guides_def dump_guide_def getitem_def)

lemma seed_sample_data_ok:
  assumes "outage d = None"
  shows "\<exists>d' n m. seed_sample_data (Some d) =
       (Inr [(''message'', PStr ''Seed complete'')], Some d') \<and>
     collection d' ''issuecategory'' =
       (if collection d ''issuecategory'' = []
        then with_ids n (map dump_category seed_categories)
        else collection d ''issuecategory'') \<and>
     collection d' ''solutionguide'' =
       (if collection d ''solutionguide'' = []
        then with_ids m (map dump_guide seed_guides)
        else collection d ''solutionguide'')"
proof -
  obtain d' n m where "seed_store d = (Inr [(''message'', PStr ''Seed complete'')], d')"
    and "collection d' ''issuecategory'' =
       (if collection d ''issuecategory'' = []
        then with_ids n (map dump_category seed_categories)
        else collection d ''issuecategory'')"
    and "collection d' ''solutionguide'' =
       (if collection d ''solutionguide'' = []
        then with_ids m (map dump_guide seed_guides)
        else collection d ''solutionguide'')"
    using seed_store_ok [OF assms] by blast
  then show ?thesis
    by (intro exI [of _ d'] exI [of _ n] exI [of _ m]) (simp add: seed_sample_data_def)
qed

text \<open>
  C1. On a store that can be reached, the seed operation ends with its response, and: when
  the category collection holds no record before, it holds exactly four afterwards, whose
  keys are, in order, \<^verbatim>\<open>icloud\<close>, \<^verbatim>\<open>frp\<close>, \<^verbatim>\<open>screen-lock\<close>, \<^verbatim>\<open>bootloop\<close>; when it holds a
  record before, it is the same afterwards (no category is inserted).
\<close>

theorem seed_inserts_categories_once:
  assumes "outage d = None"
  shows "\<exists>d'. seed_sample_data (Some d) =
       (Inr [(''message'', PStr ''Seed complete'')], Some d') \<and>
     (if collection d ''issuecategory'' = []
      then length (collection d' ''issuecategory'') = 4 \<and>
           map (\<lambda>x. getitem x ''key'') (collection d' ''issuecategory'') =
             [Some (PStr ''icloud''), Some (PStr ''frp''), Some (PStr ''screen-lock''),
              Some (PStr ''bootloop'')]
      else collection d' ''issuecategory'' = collection d ''issuecategory'')"
proof -
  obtain d' n where r: "seed_sample_data (Some d) =
       (Inr [(''message'', PStr ''Seed complete'')], Some d')"
    and c: "collection d' ''issuecategory'' =
       (if collection d ''issuecategory'' = []
        then with_ids n (map dump_category seed_categories)
        else collection d ''issuecategory'')"
    using seed_sample_data_ok [OF assms] by blast
  have "length (with_ids n (map dump_category seed_categories)) = 4"
    by (simp add: length_with_ids seed_categories_def)
  moreover have "map (\<lambda>x. getitem x ''key'') (with_ids n (map dump_category seed_categories)) =
      [Some (PStr ''icloud''), Some (PStr ''frp''), Some (PStr ''screen-lock''),
       Some (PStr ''bootloop'')]"
  proof -
    have "map (\<lambda>x. getitem x ''key'') (with_ids n (map dump_category seed_categories)) =
        map (\<lambda>x. getitem x ''key'') (map dump_category seed_categories)"
      by (rule getitem_with_ids) simp
    also note seed_category_keys
    finally show ?thesis .
  qed
  ultimately show ?thesis using r c by (intro exI [of _ d']) simp
qed

theorem seed_inserts_categories_once_witness:
  "outage empty_store = None \<and> collection empty_store ''issuecategory'' = [] \<and>
   (\<exists>d'. seed_sample_data (Some empty_store) =
       (Inr [(''message'', PStr ''Seed complete'')], Some d') \<and>
     length (collection d' ''issuecategory'') = 4 \<and>
     map (\<lambda>x. getitem x ''key'') (collection d' ''issuecategory'') =
       [Some (PStr ''icloud''), Some (PStr ''frp''), Some (PStr ''screen-lock''),
        Some (PStr ''bootloop'')]) \<and>
   outage categories_only = None \<and> collection categories_only ''issuecategory'' \<noteq> [] \<and>
   (\<exists>d'. seed_sample_data (Some categories_only) =
       (Inr [(''message'', PStr ''Seed complete'')], Some d') \<and>
     collection d' ''issuecategory'' = collection categories_only ''issuecategory'')"
proof -
  have a: "outage empty_store = None" and b: "collection empty_store ''issuecategory'' = []"
    by (simp_all add: empty_store_def collection_def)
  have c: "outage categories_only = None"
    and e: "collection categories_only ''issuecategory'' \<noteq> []"
    by (simp_all add: categories_only_def collection_def)
  show ?thesis
    using a b c e seed_inserts_categories_once [OF a] seed_inserts_categories_once [OF c]
    by simp
qed

text \<open>
  C2. On a store that can be reached and whose guide collection holds no record, the seed
  operation leaves exactly three guides in it, with the category keys \<^verbatim>\<open>icloud\<close>, \<^verbatim>\<open>frp\<close>,
  \<^verbatim>\<open>screen-lock\<close>, each one of the four seeded category keys. Nothing is assumed of the
  category collection: the guides are seeded whether it is empty or not.
\<close>

theorem seed_inserts_guides:
  assumes "outage d = None" and "collection d ''solutionguide'' = []"
  shows "\<exists>d'. seed_sample_data (Some d) =
       (Inr [(''message'', PStr ''Seed complete'')], Some d') \<and>
     length (collection d' ''solutionguide'') = 3 \<and>
     map (\<lambda>x. getitem x ''category_key'') (collection d' ''solutionguide'') =
       [Some (PStr ''icloud''), Some (PStr ''frp''), Some (PStr ''screen-lock'')] \<and>
     list_all (\<lambda>x. getitem x ''category_key'' \<in>
          Some ` PStr ` {''icloud'', ''frp'', ''screen-lock'', ''bootloop''})
       (collection d' ''solutionguide'')"
proof -
  obtain d' m where r: "seed_sample_data (Some d) =
       (Inr [(''message'', PStr ''Seed complete'')], Some d')"
    and c: "collection d' ''solutionguide'' = with_ids m (map dump_guide seed_guides)"
    using seed_sample_data_ok [OF assms(1)] assms(2) by auto
  have l: "length (collection d' ''solutionguide'') = 3"
    by (simp add: c length_with_ids seed_guides_def)
  have k: "map (\<lambda>x. getitem x ''category_key'') (collection d' ''solutionguide'') =
      [Some (PStr ''icloud''), Some (PStr ''frp''), Some (PStr ''screen-lock'')]"
  proof -
    have "map (\<lambda>x. getitem x ''category_key'') (with_ids m (map dump_guide seed_guides)) =
        map (\<lambda>x. getitem x ''category_key'') (map dump_guide seed_guides)"
      by (rule getitem_with_ids) simp
    also note seed_guide_keys
    finally show ?thesis unfolding c .
  qed
  have "\<forall>y \<in> set (map (\<lambda>x. getitem x ''category_key'') (collection d' ''solutionguide'')).
          y \<in> Some ` PStr ` {''icloud'', ''frp'', ''screen-lock'', ''bootloop''}"
    unfolding k by simp
  then have "list_all (\<lambda>x. getitem x ''category_key'' \<in>
          Some ` PStr ` {''icloud'', ''frp'', ''screen-lock'', ''bootloop''})
       (collection d' ''solutionguide'')"
    by (simp add: list_all_iff)
  with r l k show ?thesis by (intro exI [of _ d']) simp
qed

theorem seed_inserts_guides_witness:
  "outage categories_only = None \<and> collection categories_only ''solutionguide'' = [] \<and>
   collection categories_only ''issuecategory'' \<noteq> [] \<and>
   (\<exists>d'. seed_sample_data (Some categories_only) =
       (Inr [(''message'', PStr ''Seed complete'')], Some d') \<and>
     length (collection d' ''solutionguide'') = 3 \<and>
     map (\<lambda>x. getitem x ''category_key'') (collection d' ''solutionguide'') =
       [Some (PStr ''icloud''), Some (PStr ''frp''), Some (PStr ''screen-lock'')])"
proof -
  have a: "outage categories_only = None"
    and b: "collection categories_only ''solutionguide'' = []"
    and c: "collection categories_only ''issuecategory'' \<noteq> []"
    by (simp_all add: categories_only_def collection_def)
  obtain d' where "seed_sample_data (Some categories_only) =
       (Inr [(''message'', PStr ''Seed complete'')], Some d')"
    and "length (collection d' ''solutionguide'') = 3"
    and "map (\<lambda>x. getitem x ''category_key'') (collection d' ''solutionguide'') =
       [Some (PStr ''icloud''), Some (PStr ''frp''), Some (PStr ''screen-lock'')]"
    using seed_inserts_guides [OF a b] by auto
  with a b c show ?thesis by (intro conjI exI [of _ d'])
qed

text \<open>
  C7. With no store handle (\<^verbatim>\<open>db is None\<close>) the seed operation raises
  \<^verbatim>\<open>HTTPException(500, "Database not available")\<close> at once: no count and no insert is made, and
  there is still no store afterwards.
\<close>

theorem seed_sample_data_not_configured:
  "seed_sample_data None = (Inl (HTTPException 500 ''Database not available''), None)"
  by (simp add: seed_sample_data_def)

section \<open>Properties of the guide listing and of the diagnostic endpoint\<close>

lemma matches_single: "matches [(k, v)] = (\<lambda>g. getitem g k = Some v)"
  by (rule ext) (simp add: matches_def)

lemma serialize_two_guides:
  "map (serialize py_str) (collection two_guides ''solutionguide'') =
     [[(''id'', PStr (objectid_str 0)), (''title'', PStr ''Check Activation Lock Status''),
       (''category_key'', PStr ''icloud'')],
      [(''id'', PStr (objectid_str 1)), (''title'', PStr ''FRP Removal Preparation''),
       (''category_key'', PStr ''frp'')]]"
  by (simp add: two_guides_def collection_def serialize_def serialize_item_def
      setitem_def keys_def py_str_def)

lemma serialize_frp_guides:
  "map (serialize py_str)
     (filter (\<lambda>g. getitem g ''category_key'' = Some (PStr ''frp''))
        (collection two_guides ''solutionguide'')) =
     [[(''id'', PStr (objectid_str 1)), (''title'', PStr ''FRP Removal Preparation''),
       (''category_key'', PStr ''frp'')]]"
  by (simp add: two_guides_def collection_def getitem_def serialize_def serialize_item_def
      setitem_def keys_def py_str_def)

lemma two_guides_up: "outage two_guides = None"
  by (simp add: two_guides_def)

lemma py_len_take: "py_len (py_take n s) \<le> n"
  by (induction s arbitrary: n) (auto simp: py_len_def split: nat.splits)

lemma py_take_prefix: "\<exists>rest. s = py_take n s @ rest"
  by (induction s arbitrary: n) (auto split: nat.splits)

lemma py_len_Cons:
  "py_len (c # cs) = (if continuation c then py_len cs else Suc (py_len cs))"
  by (simp add: py_len_def)

lemma py_len_Nil: "py_len [] = 0"
  by (simp add: py_len_def)

lemma py_take_all: "py_len s \<le> n \<Longrightarrow> py_take n s = s"
proof (induction s arbitrary: n)
  case Nil
  then show ?case by simp
next
  case (Cons c cs)
  show ?case
  proof (cases "continuation c")
    case True
    with Cons show ?thesis by (simp add: py_len_Cons)
  next
    case False
    with Cons.prems obtain m where "n = Suc m" and "py_len cs \<le> m"
      by (cases n) (simp_all add: py_len_Cons)
    with False Cons.IH show ?thesis by simp
  qed
qed

lemma py_len_take_exact: "n \<le> py_len s \<Longrightarrow> py_len (py_take n s) = n"
proof (induction s arbitrary: n)
  case Nil
  then show ?case by (simp add: py_len_Nil)
next
  case (Cons c cs)
  show ?case
  proof (cases "continuation c")
    case True
    with Cons show ?thesis by (simp add: py_len_Cons)
  next
    case False
    show ?thesis
    proof (cases n)
      case 0
      with False show ?thesis by (simp add: py_len_Nil)
    next
      case (Suc m)
      with False Cons.prems have "m \<le> py_len cs" by (simp add: py_len_Cons)
      with False Suc Cons.IH show ?thesis by (simp add: py_len_Cons)
    qed
  qed
qed

lemma py_take_50:
  "py_len (py_take 50 e) \<le> 50 \<and> (\<exists>rest. e = py_take 50 e @ rest) \<and>
   (py_len e \<le> 50 \<longrightarrow> py_take 50 e = e) \<and>
   (50 \<le> py_len e \<longrightarrow> py_len (py_take 50 e) = 50)"
  using py_len_take [of 50 e] py_take_prefix [of e 50] py_take_all [of e 50]
    py_len_take_exact [of 50 e]
  by blast

text \<open>
  C6, as amended. On a store that can be reached, a request with a non-empty
  \<^verbatim>\<open>category_key=K\<close> returns the serialized guides whose \<^verbatim>\<open>category_key\<close> equals \<open>K\<close>, and
  only those; a request without the parameter returns all guides, serialized.
\<close>

theorem list_guides_filters:
  assumes "outage d = None" and "k \<noteq> []"
  shows "list_guides str_of (Some d) (Some k) =
           Inr (map (serialize str_of)
                  (filter (\<lambda>g. getitem g ''category_key'' = Some (PStr k))
                     (collection d ''solutionguide''))) \<and>
         list_guides str_of (Some d) None =
           Inr (map (serialize str_of) (collection d ''solutionguide''))"
  using assms
  by (simp add: list_guides_def get_documents_def guides_filter_def matches_single matches_empty)

theorem list_guides_filters_witness:
  "outage two_guides = None \<and> ''frp'' \<noteq> [] \<and>
   list_guides py_str (Some two_guides) (Some ''frp'') =
     Inr [[(''id'', PStr (objectid_str 1)), (''title'', PStr ''FRP Removal Preparation''),
           (''category_key'', PStr ''frp'')]] \<and>
   list_guides py_str (Some two_guides) None =
     Inr [[(''id'', PStr (objectid_str 0)), (''title'', PStr ''Check Activation Lock Status''),
           (''category_key'', PStr ''icloud'')],
          [(''id'', PStr (objectid_str 1)), (''title'', PStr ''FRP Removal Preparation''),
           (''category_key'', PStr ''frp'')]]"
proof -
  have k: "''frp'' \<noteq> []" by simp
  show ?thesis
    using k two_guides_up list_guides_filters [OF two_guides_up k, of py_str]
    unfolding serialize_two_guides serialize_frp_guides by blast
qed

text \<open>
  C6 as the specification states it fails for the empty key: with \<^verbatim>\<open>category_key=\<close> the
  response holds a guide whose \<^verbatim>\<open>category_key\<close> is \<^verbatim>\<open>icloud\<close>, not the empty string.
\<close>

theorem list_guides_filters_counterexample:
  "list_guides py_str (Some one_guide) (Some '''') =
     Inr [[(''id'', PStr (objectid_str 0)), (''title'', PStr ''Check Activation Lock Status''),
           (''category_key'', PStr ''icloud'')]] \<and>
   PStr ''icloud'' \<noteq> PStr ''''"
  by (simp add: list_guides_def get_documents_def guides_filter_def matches_empty one_guide_def
      collection_def serialize_def serialize_item_def setitem_def keys_def py_str_def)

text \<open>
  C10. The empty \<^verbatim>\<open>category_key\<close> builds the empty filter and is answered as the absent
  parameter is, whatever the state of the handle; on a store that can be reached the answer
  is every guide, serialized.
\<close>

theorem list_guides_empty_key:
  assumes "outage d = None"
  shows "guides_filter (Some []) = [] \<and>
         list_guides str_of (Some d) (Some []) =
           Inr (map (serialize str_of) (collection d ''solutionguide'')) \<and>
         list_guides str_of db (Some []) = list_guides str_of db None"
  using assms
  by (simp add: list_guides_def get_documents_def guides_filter_def matches_empty)

theorem list_guides_empty_key_witness:
  "outage two_guides = None \<and>
   list_guides py_str (Some two_guides) (Some []) =
     Inr [[(''id'', PStr (objectid_str 0)), (''title'', PStr ''Check Activation Lock Status''),
           (''category_key'', PStr ''icloud'')],
          [(''id'', PStr (objectid_str 1)), (''title'', PStr ''FRP Removal Preparation''),
           (''category_key'', PStr ''frp'')]] \<and>
   list_guides py_str (Some two_guides) (Some []) = list_guides py_str (Some two_guides) None"
  using two_guides_up list_guides_empty_key [OF two_guides_up, of py_str "Some two_guides"]
  unfolding serialize_two_guides by blast

lemmas prog_defs = then_do_def try_except_def modify_def call_def ret_def

text \<open>
  C8. \<^verbatim>\<open>GET /test\<close> returns a response for every handle, every store state and every
  exception of the store. Its \<^verbatim>\<open>database\<close> text names the outcome: not initialized; an
  error reading the handle; connected but an error listing the collections; connected and
  working. An exception appears in it as \<^verbatim>\<open>str(e)[:50]\<close>: a prefix of its text of at most 50
  code points, the whole text when that has 50 code points or fewer, and exactly its first
  50 code points when it has more. The two configuration texts are always set from the
  environment.
\<close>

theorem test_database_never_raises:
  "\<exists>r. test_database db getenv = Inr r \<and>
     database r =
       (case db of
          None \<Rightarrow> warning_sign @ ''  Available but not initialized''
        | Some d \<Rightarrow>
            (case name_attr d of
               Inl e \<Rightarrow> cross_mark @ '' Error: '' @ py_take 50 e
             | Inr n \<Rightarrow>
                 (case list_collection_names d of
                    Inl e \<Rightarrow> warning_sign @ ''  Connected but Error: '' @ py_take 50 e
                  | Inr names \<Rightarrow> check_mark @ '' Connected & Working''))) \<and>
     database_url r = Some (set_or_not (getenv ''DATABASE_URL'')) \<and>
     database_name r = Some (set_or_not (getenv ''DATABASE_NAME'')) \<and>
     (\<forall>e. py_len (py_take 50 e) \<le> 50 \<and> (\<exists>rest. e = py_take 50 e @ rest) \<and>
          (py_len e \<le> 50 \<longrightarrow> py_take 50 e = e) \<and>
          (50 \<le> py_len e \<longrightarrow> py_len (py_take 50 e) = 50))"
proof (cases db)
  case None
  then show ?thesis
    by (simp add: test_database_def check_database_def prog_defs py_take_50)
next
  case (Some d)
  show ?thesis
  proof (cases "name_attr d")
    case (Inl e)
    with Some show ?thesis
      by (simp add: test_database_def check_database_def prog_defs py_take_50)
  next
    case (Inr n)
    show ?thesis
    proof (cases "list_collection_names d")
      case (Inl e)
      with Some Inr show ?thesis
        by (simp add: test_database_def check_database_def check_collections_def prog_defs
            py_take_50)
    next
      case names: (Inr names)
      with Some Inr show ?thesis
        by (simp add: test_database_def check_database_def check_collections_def prog_defs
            py_take_50)
    qed
  qed
qed

theorem test_database_never_raises_witness:
  "(\<exists>r. test_database (Some store_down) no_env = Inr r \<and>
        database r =
          warning_sign @ ''  Connected but Error: ''
          @ ''localhost:27017: [Errno 111] Connection refused (c'') \<and>
   py_len ''timed out'' \<le> 50 \<and> py_take 50 ''timed out'' = ''timed out'' \<and>
   50 \<le> py_len long_cause \<and> py_len (py_take 50 long_cause) = 50"
proof -
  have len: "py_len long_cause = 74"
    by (simp add: long_cause_def py_len_def continuation_def)
  have cut: "py_take 50 long_cause = ''localhost:27017: [Errno 111] Connection refused (c''"
    by (simp add: long_cause_def continuation_def)
  have short: "py_len ''timed out'' \<le> 50"
    by (simp add: py_len_def continuation_def)
  obtain r where r: "test_database (Some store_down) no_env = Inr r"
    and d: "database r =
       (case Some store_down of
          None \<Rightarrow> warning_sign @ ''  Available but not initialized''
        | Some d \<Rightarrow>
            (case name_attr d of
               Inl e \<Rightarrow> cross_mark @ '' Error: '' @ py_take 50 e
             | Inr n \<Rightarrow>
                 (case list_collection_names d of
                    Inl e \<Rightarrow> warning_sign @ ''  Connected but Error: '' @ py_take 50 e
                  | Inr names \<Rightarrow> check_mark @ '' Connected & Working'')))"
    and slice: "\<forall>e. py_len (py_take 50 e) \<le> 50 \<and> (\<exists>rest. e = py_take 50 e @ rest) \<and>
          (py_len e \<le> 50 \<longrightarrow> py_take 50 e = e) \<and>
          (50 \<le> py_len e \<longrightarrow> py_len (py_take 50 e) = 50)"
    using test_database_never_raises [of "Some store_down" no_env] by blast
  have "database r = warning_sign @ ''  Connected but Error: '' @ py_take 50 long_cause"
    using d by (simp add: store_down_def list_collection_names_def)
  then have status: "database r =
      warning_sign @ ''  Connected but Error: ''
      @ ''localhost:27017: [Errno 111] Connection refused (c''"
    by (simp only: cut)
  have whole: "py_take 50 ''timed out'' = ''timed out''"
    using slice short by blast
  have long: "50 \<le> py_len long_cause"
    by (simp add: len)
  have exact: "py_len (py_take 50 long_cause) = 50"
    using slice long by blast
  show ?thesis
    using r status whole exact short long by (intro conjI exI [of _ r])
qed

text \<open>
  C9. When the handle can be read and the store lists its collections, the response
  reports the first ten names of that list and never more than ten.
\<close>

theorem test_database_collections:
  assumes "name_attr d = Inr n" and "list_collection_names d = Inr names"
  shows "\<exists>r. test_database (Some d) getenv = Inr r \<and>
              collections r = take 10 names \<and> length (collections r) \<le> 10"
  using assms
  by (simp add: test_database_def check_database_def check_collections_def prog_defs)

theorem test_database_collections_witness:
  "name_attr many_collections = Inr (Some ''repair'') \<and>
   list_collection_names many_collections =
     Inr [''c01'', ''c02'', ''c03'', ''c04'', ''c05'', ''c06'', ''c07'', ''c08'', ''c09'',
          ''c10'', ''c11'', ''c12''] \<and>
   (\<exists>r. test_database (Some many_collections) no_env = Inr r \<and>
        collections r =
          [''c01'', ''c02'', ''c03'', ''c04'', ''c05'', ''c06'', ''c07'', ''c08'', ''c09'',
           ''c10''])"
proof -
  have a: "name_attr many_collections = Inr (Some ''repair'')"
    by (simp add: many_collections_def)
  have b: "list_collection_names many_collections =
     Inr [''c01'', ''c02'', ''c03'', ''c04'', ''c05'', ''c06'', ''c07'', ''c08'', ''c09'',
          ''c10'', ''c11'', ''c12'']"
    by (simp add: many_collections_def list_collection_names_def keys_def)
  show ?thesis
    using a b test_database_collections [OF a b, of no_env] by auto
qed

end
